theory Spec2Isabelle
  imports Main
begin

section \<open>The apictx package: error model\<close>

text \<open>
  A Go \<^verbatim>\<open>error\<close> is an interface value. The values that matter to the package are
  plain errors (\<^verbatim>\<open>errors.New\<close>), the \<^verbatim>\<open>*strconv.NumError\<close> that \<^verbatim>\<open>strconv.Atoi\<close>
  returns, the errors \<^verbatim>\<open>fmt.Errorf\<close> builds (kept as the format with its arguments; with
  no \<^verbatim>\<open>%w\<close> verb such an error has no \<^verbatim>\<open>Unwrap\<close>), an error that wraps another one
  (\<^verbatim>\<open>fmt.Errorf\<close> with one \<^verbatim>\<open>%w\<close>), and the package's own \<^verbatim>\<open>*HttpError\<close>.
  \<^verbatim>\<open>HttpError\<close> has the fields \<^verbatim>\<open>err\<close>, \<^verbatim>\<open>msg\<close> and \<^verbatim>\<open>statusCode\<close>; a nil \<^verbatim>\<open>err\<close>
  is \<open>None\<close>.
\<close>

datatype strconv_err = ErrSyntax | ErrRange

datatype error =
    ErrorString string
  | NumError string string strconv_err
  | Errorf string "fmt_arg list"
  | WrapError string error
  | HttpErrorPtr HttpError
and fmt_arg = ArgString string | ArgError error
and HttpError = HttpError (err: "error option") (msg: string) (statusCode: int)

definition StatusOK :: int where "StatusOK = 200"
definition StatusBadRequest :: int where "StatusBadRequest = 400"
definition StatusInternalServerError :: int where "StatusInternalServerError = 500"

text \<open>
  \<^verbatim>\<open>NewHttpError(msg, err, statsuCode ...int)\<close>: the variadic argument is a list.
\<close>

definition NewHttpError :: "string \<Rightarrow> error option \<Rightarrow> int list \<Rightarrow> HttpError" where
  "NewHttpError m e statsuCode =
     (let statusCode = StatusBadRequest;
          statusCode = (if length statsuCode = 1 \<and> statsuCode ! 0 \<ge> 200 \<and> statsuCode ! 0 \<le> 520
                        then statsuCode ! 0 else statusCode)
      in HttpError e m statusCode)"

definition HttpError_Error :: "HttpError \<Rightarrow> string" where
  "HttpError_Error e = msg e"

definition HttpError_Cause :: "HttpError \<Rightarrow> error option" where
  "HttpError_Cause e = err e"

definition HttpError_Status :: "HttpError \<Rightarrow> int" where
  "HttpError_Status e = statusCode e"

text \<open>
  \<^verbatim>\<open>errors.As(err, &httpErr)\<close> with a target of type \<^verbatim>\<open>*HttpError\<close>: the first
  \<^verbatim>\<open>*HttpError\<close> on the \<^verbatim>\<open>Unwrap\<close> chain of the error. \<^verbatim>\<open>HttpError\<close> has a \<^verbatim>\<open>Cause\<close>
  method and no \<^verbatim>\<open>Unwrap\<close>, so the chain ends at it.
\<close>

fun errors_As :: "error \<Rightarrow> HttpError option" where
  "errors_As (HttpErrorPtr h) = Some h"
| "errors_As (WrapError m e) = errors_As e"
| "errors_As (ErrorString m) = None"
| "errors_As (NumError f n k) = None"
| "errors_As (Errorf f args) = None"


section \<open>Requests, responses and the context\<close>

text \<open>
  The request: its method, the multimap \<^verbatim>\<open>r.URL.Query()\<close> returns, its header and its body
  stream. The body is only ever handed to the JSON decoder, so its type is left open.
  \<^verbatim>\<open>Header.Get\<close> returns the first value of the key, or the empty string.
\<close>

record 'b Request =
  Method :: string
  URL_Query :: "string \<rightharpoonup> string list"
  Header :: "string \<rightharpoonup> string list"
  Body :: 'b

definition Header_Get :: "(string \<rightharpoonup> string list) \<Rightarrow> string \<Rightarrow> string" where
  "Header_Get h key = (case h key of Some (v # vs) \<Rightarrow> v | _ \<Rightarrow> [])"

text \<open>
  A JSON document, as the encoder emits it and a client reads it.
\<close>

datatype json =
    JNull
  | JBool bool
  | JInt int
  | JString string
  | JArray "json list"
  | JObject "(string \<times> json) list"

text \<open>
  The response sink is the interface \<^verbatim>\<open>http.ResponseWriter\<close>. The model keeps the calls
  the package makes on it, in order: \<^verbatim>\<open>Header().Set(k, v)\<close>, \<^verbatim>\<open>WriteHeader(code)\<close> and
  the document a \<^verbatim>\<open>json.Encoder\<close> on it writes.
\<close>

datatype writer_call =
    Set_Header string string
  | Write_Header int
  | Write_JSON json

type_synonym ResponseWriter = "writer_call list"

definition Header_Set :: "string \<Rightarrow> string \<Rightarrow> ResponseWriter \<Rightarrow> ResponseWriter" where
  "Header_Set k v w = w @ [Set_Header k v]"

definition WriteHeader :: "int \<Rightarrow> ResponseWriter \<Rightarrow> ResponseWriter" where
  "WriteHeader code w = w @ [Write_Header code]"

definition Encode :: "json \<Rightarrow> ResponseWriter \<Rightarrow> ResponseWriter" where
  "Encode j w = w @ [Write_JSON j]"

text \<open>What a client sees of a response: the status codes and the documents written.\<close>

fun written_status :: "ResponseWriter \<Rightarrow> int list" where
  "written_status [] = []"
| "written_status (Write_Header code # w) = code # written_status w"
| "written_status (c # w) = written_status w"

fun written_body :: "ResponseWriter \<Rightarrow> json list" where
  "written_body [] = []"
| "written_body (Write_JSON j # w) = j # written_body w"
| "written_body (c # w) = written_body w"

text \<open>
  The context of one request. A \<^verbatim>\<open>User\<close> has one method, \<^verbatim>\<open>ID() string\<close>, and is
  kept as that identifier.
\<close>

record 'b Context =
  CurrentUser :: "string option"
  writer :: ResponseWriter
  request :: "'b Request"

definition NewContext :: "ResponseWriter \<Rightarrow> 'b Request \<Rightarrow> string option \<Rightarrow> 'b Context" where
  "NewContext w r user = \<lparr>CurrentUser = user, writer = w, request = r\<rparr>"

section \<open>Binding\<close>

text \<open>
  The target of a bind is a pointer to a struct, which reflection walks field by field.
  A field has its name, its struct tag (the key/value pairs \<^verbatim>\<open>Tag.Get\<close> looks up; a
  missing key reads as the empty string) and its value. \<^verbatim>\<open>BindQueryParams\<close> tells
  three kinds of value apart: \<^verbatim>\<open>reflect.String\<close>, \<^verbatim>\<open>reflect.Int\<close> (the type
  \<^verbatim>\<open>int\<close>, 64 bits wide) and every other kind, whose content the package never looks
  at (an opaque string here, empty for the zero value). A field that carries a
  \<^verbatim>\<open>query\<close> tag is taken to be exported: reflection sets no other field.
\<close>

datatype field_value = String_v string | Int_v int | Other_v string

record Field =
  Name :: string
  Tag :: "(string \<times> string) list"
  Value :: field_value

definition Tag_Get :: "(string \<times> string) list \<Rightarrow> string \<Rightarrow> string" where
  "Tag_Get tag key = (case map_of tag key of Some v \<Rightarrow> v | None \<Rightarrow> [])"

text \<open>
  \<^verbatim>\<open>strconv.Atoi\<close> for a 64-bit \<^verbatim>\<open>int\<close>: an optional sign, then one or more decimal
  digits read left to right. A byte that is no digit is a syntax error; a magnitude
  that leaves 64 unsigned bits, or a value outside the range of \<^verbatim>\<open>int\<close>, is a
  range error. The error is a \<^verbatim>\<open>*NumError\<close> with the function name and the input.
\<close>

definition is_digit :: "char \<Rightarrow> bool" where
  "is_digit c = ((of_char CHR ''0'' :: int) \<le> of_char c \<and> (of_char c :: int) \<le> of_char CHR ''9'')"

definition digit_val :: "char \<Rightarrow> int" where
  "digit_val c = of_char c - of_char CHR ''0''"

fun ParseUint :: "int \<Rightarrow> string \<Rightarrow> strconv_err + int" where
  "ParseUint n [] = Inr n"
| "ParseUint n (c # cs) =
     (if \<not> is_digit c then Inl ErrSyntax
      else if n * 10 + digit_val c > 2 ^ 64 - 1 then Inl ErrRange
      else ParseUint (n * 10 + digit_val c) cs)"

definition Atoi :: "string \<Rightarrow> error + int" where
  "Atoi s =
     (let (neg, ds) = (case s of
                         c # cs \<Rightarrow> if c = CHR ''+'' then (False, cs)
                                    else if c = CHR ''-'' then (True, cs)
                                    else (False, s)
                       | [] \<Rightarrow> (False, s))
      in if ds = [] then Inl (NumError ''Atoi'' s ErrSyntax)
         else (case ParseUint 0 ds of
                 Inl k \<Rightarrow> Inl (NumError ''Atoi'' s k)
               | Inr un \<Rightarrow>
                   if \<not> neg \<and> un \<ge> 2 ^ 63 then Inl (NumError ''Atoi'' s ErrRange)
                   else if neg \<and> un > 2 ^ 63 then Inl (NumError ''Atoi'' s ErrRange)
                   else Inr (if neg then - un else un)))"

text \<open>
  \<^verbatim>\<open>Context.BindQueryParams(data, params)\<close>: the loop over the fields, in order. The
  target is changed in place, so the result is the target as the call leaves it together
  with the error (\<open>None\<close> for nil). The receiver is not used.
\<close>

fun BindQueryParams :: "Field list \<Rightarrow> (string \<rightharpoonup> string list) \<Rightarrow> Field list \<times> error option" where
  "BindQueryParams [] params = ([], None)"
| "BindQueryParams (field # rest) params =
     (let tag = Tag_Get (Tag field) ''query'';
          continue = (\<lambda>f. case BindQueryParams rest params of (rest', e) \<Rightarrow> (f # rest', e))
      in if tag \<noteq> [] then
           (case params tag of
              Some (paramValue # others) \<Rightarrow>
                (case Value field of
                   String_v old \<Rightarrow> continue (field\<lparr>Value := String_v paramValue\<rparr>)
                 | Int_v old \<Rightarrow>
                     (case Atoi paramValue of
                        Inl e \<Rightarrow>
                          (field # rest,
                           Some (Errorf ''failed to convert parameter %s to int: %s''
                                   [ArgString tag, ArgError e]))
                      | Inr intValue \<Rightarrow> continue (field\<lparr>Value := Int_v intValue\<rparr>))
                 | Other_v old \<Rightarrow> continue field)
            | _ \<Rightarrow> continue field)
         else continue field)"

text \<open>
  \<^verbatim>\<open>Context.BindJSONBody(data, body)\<close>. \<^verbatim>\<open>json.NewDecoder(body).Decode(data)\<close> belongs to
  \<^verbatim>\<open>encoding/json\<close>: \<open>decode\<close> stands for it, from the body and the target to the target
  as the decoder leaves it and its error.
\<close>

definition BindJSONBody ::
  "('b \<Rightarrow> Field list \<Rightarrow> Field list \<times> error option) \<Rightarrow> Field list \<Rightarrow> 'b \<Rightarrow> Field list \<times> error option" where
  "BindJSONBody decode data body =
     (case decode body data of
        (data', Some e) \<Rightarrow> (data', Some (Errorf ''failed to decode JSON body: %s'' [ArgError e]))
      | (data', None) \<Rightarrow> (data', None))"

definition BindWithoutValidation ::
  "('b \<Rightarrow> Field list \<Rightarrow> Field list \<times> error option) \<Rightarrow> 'b Context \<Rightarrow> Field list \<Rightarrow> Field list \<times> error option" where
  "BindWithoutValidation decode c data =
     (let queryParams = URL_Query (request c)
      in case BindQueryParams data queryParams of
           (data, Some e) \<Rightarrow> (data, Some e)
         | (data, None) \<Rightarrow>
             (let contentType = Header_Get (Header (request c)) ''Content-Type''
              in case (if contentType = ''application/json''
                       then BindJSONBody decode data (Body (request c))
                       else (data, None)) of
                   (data, Some e) \<Rightarrow> (data, Some e)
                 | (data, None) \<Rightarrow> (data, None)))"

text \<open>
  \<^verbatim>\<open>strings.Join\<close>, and \<^verbatim>\<open>Context.Bind(data)\<close>. \<^verbatim>\<open>validator.New().Struct(data)\<close> belongs
  to the validator package: \<open>validate\<close> stands for it and returns \<open>None\<close> for nil, or
  what \<^verbatim>\<open>Field()\<close> returns for each of the \<^verbatim>\<open>ValidationErrors\<close>, in order.
\<close>

fun strings_Join :: "string list \<Rightarrow> string \<Rightarrow> string" where
  "strings_Join [] sep = []"
| "strings_Join [x] sep = x"
| "strings_Join (x # y # ys) sep = x @ sep @ strings_Join (y # ys) sep"

definition Bind ::
  "(Field list \<Rightarrow> string list option) \<Rightarrow> ('b \<Rightarrow> Field list \<Rightarrow> Field list \<times> error option) \<Rightarrow>
   'b Context \<Rightarrow> Field list \<Rightarrow> Field list \<times> HttpError option" where
  "Bind validate decode c data =
     (case BindWithoutValidation decode c data of
        (data, Some e) \<Rightarrow>
          (data, Some (NewHttpError ''failed to read inputs'' (Some e) [StatusBadRequest]))
      | (data, None) \<Rightarrow>
          (case validate data of
             Some names \<Rightarrow>
               (let errMsgs = map (\<lambda>f. ''validation failed for '' @ f) names
                in (data,
                    Some (NewHttpError (''validation error(s): '' @ strings_Join errMsgs '', '')
                            None [StatusBadRequest])))
           | None \<Rightarrow> (data, None)))"

section \<open>Response writing\<close>

text \<open>
  \<^verbatim>\<open>ApiErrorResponse\<close>: \<^verbatim>\<open>Code\<close> (an \<^verbatim>\<open>interface{}\<close> that only ever holds an integer
  constant) is tagged \<^verbatim>\<open>json:"code"\<close>, \<^verbatim>\<open>Message\<close> is tagged \<^verbatim>\<open>json:"message"\<close> and
  \<^verbatim>\<open>Cause\<close> is tagged \<^verbatim>\<open>json:"-"\<close>, which the encoder skips.
\<close>

record ApiErrorResponse =
  Code :: int
  Message :: string
  Cause :: "error option"

definition ApiErrorResponse_json :: "ApiErrorResponse \<Rightarrow> json" where
  "ApiErrorResponse_json r = JObject [(''code'', JInt (Code r)), (''message'', JString (Message r))]"

text \<open>
  \<^verbatim>\<open>HandleError(w, r, err, overRideStatusCode ...int)\<close>. The two \<^verbatim>\<open>slog\<close> calls write to
  the process log only and are left out; the request is used by them alone.
\<close>

definition HandleError :: "ResponseWriter \<Rightarrow> 'b Request \<Rightarrow> error \<Rightarrow> int list \<Rightarrow> ResponseWriter" where
  "HandleError w r e overRideStatusCode =
     (let statusCode = StatusInternalServerError;
          statusCode = (if length overRideStatusCode = 1 then overRideStatusCode ! 0 else statusCode);
          (statusCode, errRes) =
            (case errors_As e of
               Some httpErr \<Rightarrow>
                 (HttpError_Status httpErr,
                  \<lparr>Code = 0x6400, Message = HttpError_Error httpErr, Cause = HttpError_Cause httpErr\<rparr>)
             | None \<Rightarrow>
                 (statusCode, \<lparr>Code = 0x0, Message = ''Internal error'', Cause = None\<rparr>));
          w = Header_Set ''Content-Type'' ''application/json;charset=utf-8'' w;
          w = WriteHeader statusCode w
      in Encode (ApiErrorResponse_json errRes) w)"

text \<open>
  \<^verbatim>\<open>Context.JSON(code, data)\<close>. How a Go value becomes a JSON document is
  \<^verbatim>\<open>encoding/json\<close>'s business: \<open>marshal\<close> is that view of the value, \<open>None\<close> when the
  encoder rejects it (\<^verbatim>\<open>Encode\<close> then writes nothing and its error is dropped). The
  result is the new state of \<^verbatim>\<open>c.writer\<close>.
\<close>

definition JSON :: "('a \<Rightarrow> json option) \<Rightarrow> 'b Context \<Rightarrow> int \<Rightarrow> 'a \<Rightarrow> ResponseWriter" where
  "JSON marshal c code data =
     (let statusCode = code;
          statusCode = (if statusCode = 0 then StatusOK else statusCode);
          w = Header_Set ''Content-Type'' ''application/json;charset=utf-8'' (writer c);
          w = WriteHeader statusCode w
      in case marshal data of Some j \<Rightarrow> Encode j w | None \<Rightarrow> w)"

text \<open>
  \<^verbatim>\<open>Handler\<close>: a context function returns its error and the state it left the writer in.
\<close>

definition Handler ::
  "('b Context \<Rightarrow> error option \<times> ResponseWriter) \<Rightarrow> ResponseWriter \<Rightarrow> 'b Request \<Rightarrow> ResponseWriter" where
  "Handler c w r =
     (let ctx = \<lparr>CurrentUser = None, writer = w, request = r\<rparr>;
          (e, w) = c ctx
      in case e of Some e' \<Rightarrow> HandleError w r e' [] | None \<Rightarrow> w)"

section \<open>The decoder and the encoder of encoding/json\<close>

text \<open>
  \<^verbatim>\<open>json.NewDecoder(body).Decode(data)\<close> for a target that is a pointer to a struct. The
  decoder first reads one JSON value off the stream; a stream that holds none (an empty
  body, \<^verbatim>\<open>io.EOF\<close>) is an error and the target stays as it is. \<^verbatim>\<open>null\<close> changes nothing,
  a value that is neither \<^verbatim>\<open>null\<close> nor an object is a type error. The members of an
  object are taken in order: the member's key is looked up among the fields of the struct
  type (the names and tags of its fields), a key that names no field is skipped, and the
  member's value is decoded into the field the key names. The first error is kept while
  decoding goes on. Which field a key names (\<^verbatim>\<open>json\<close> tags, case folding) and how a value
  is decoded into a field of some kind are left open: \<open>resolve\<close> and \<open>store\<close>.
\<close>

type_synonym struct_type = "(string \<times> (string \<times> string) list) list"

definition type_of :: "Field list \<Rightarrow> struct_type" where
  "type_of data = map (\<lambda>f. (Name f, Tag f)) data"

definition decode_member ::
  "(string \<Rightarrow> struct_type \<Rightarrow> nat option) \<Rightarrow> (json \<Rightarrow> Field \<Rightarrow> field_value \<times> error option) \<Rightarrow>
   string \<Rightarrow> json \<Rightarrow> Field list \<Rightarrow> Field list \<times> error option" where
  "decode_member resolve store k v data =
     (case resolve k (type_of data) of
        Some i \<Rightarrow>
          (if i < length data
           then (case store v (data ! i) of (x, e) \<Rightarrow> (data[i := (data ! i)\<lparr>Value := x\<rparr>], e))
           else (data, None))
      | None \<Rightarrow> (data, None))"

fun decode_object ::
  "(string \<Rightarrow> struct_type \<Rightarrow> nat option) \<Rightarrow> (json \<Rightarrow> Field \<Rightarrow> field_value \<times> error option) \<Rightarrow>
   (string \<times> json) list \<Rightarrow> Field list \<Rightarrow> Field list \<times> error option" where
  "decode_object resolve store [] data = (data, None)"
| "decode_object resolve store ((k, v) # kvs) data =
     (case decode_member resolve store k v data of
        (data1, e1) \<Rightarrow>
          (case decode_object resolve store kvs data1 of
             (data2, e2) \<Rightarrow> (data2, (case e1 of Some e \<Rightarrow> Some e | None \<Rightarrow> e2))))"

fun json_Decode ::
  "(string \<Rightarrow> struct_type \<Rightarrow> nat option) \<Rightarrow> (json \<Rightarrow> Field \<Rightarrow> field_value \<times> error option) \<Rightarrow>
   json option \<Rightarrow> Field list \<Rightarrow> Field list \<times> error option" where
  "json_Decode resolve store None data = (data, Some (ErrorString ''EOF''))"
| "json_Decode resolve store (Some (JObject kvs)) data = decode_object resolve store kvs data"
| "json_Decode resolve store (Some JNull) data = (data, None)"
| "json_Decode resolve store (Some j) data =
     (data, Some (ErrorString ''json: cannot unmarshal value into Go value''))"

text \<open>The fields a body mentions: those a key of its object names.\<close>

fun mentioned :: "(string \<Rightarrow> struct_type \<Rightarrow> nat option) \<Rightarrow> json option \<Rightarrow> struct_type \<Rightarrow> nat set" where
  "mentioned resolve (Some (JObject kvs)) T = set (List.map_filter (\<lambda>(k, v). resolve k T) kvs)"
| "mentioned resolve b T = {}"







section \<open>What the specification says of query coercion\<close>

text \<open>
  The specification's reading of one field: the first value of the parameter the field is
  annotated with, if the annotation is there and the parameter has a value; the field
  with that value coerced into it; and the parse failure of a field whose value is
  present and is no integer.
\<close>

definition query_value :: "(string \<rightharpoonup> string list) \<Rightarrow> Field \<Rightarrow> string option" where
  "query_value params f =
     (if Tag_Get (Tag f) ''query'' = [] then None
      else case params (Tag_Get (Tag f) ''query'') of Some (v # vs) \<Rightarrow> Some v | _ \<Rightarrow> None)"

definition coerced :: "(string \<rightharpoonup> string list) \<Rightarrow> Field \<Rightarrow> Field" where
  "coerced params f =
     (case query_value params f of
        None \<Rightarrow> f
      | Some v \<Rightarrow>
          (case Value f of
             String_v old \<Rightarrow> f\<lparr>Value := String_v v\<rparr>
           | Int_v old \<Rightarrow> (case Atoi v of Inr n \<Rightarrow> f\<lparr>Value := Int_v n\<rparr> | Inl e \<Rightarrow> f)
           | Other_v old \<Rightarrow> f))"

definition parse_failure :: "(string \<rightharpoonup> string list) \<Rightarrow> Field \<Rightarrow> error option" where
  "parse_failure params f =
     (case query_value params f of
        None \<Rightarrow> None
      | Some v \<Rightarrow>
          (case Value f of
             Int_v old \<Rightarrow> (case Atoi v of Inl e \<Rightarrow> Some e | Inr n \<Rightarrow> None)
           | _ \<Rightarrow> None))"

section \<open>Instances for the examples\<close>

text \<open>
  The decoder, the validator and the encoder are parameters of the model. The examples
  need instances of them.

  The decoder instance is for a struct whose fields carry no \<^verbatim>\<open>json\<close> tag and have
  ASCII names. A member key names the exported field of exactly that name or, if there
  is none, the first exported field whose name equals the key up to the case of letters.
  A string is stored in a string field and an integer that fits in an \<^verbatim>\<open>int\<close> field; a
  field of another kind is taken to be a \<^verbatim>\<open>bool\<close>, as \<^verbatim>\<open>Admin\<close> of the example target
  is; \<^verbatim>\<open>null\<close> changes nothing; anything else is a type error and the field stays as
  it is.
\<close>

definition lower_code :: "char \<Rightarrow> nat" where
  "lower_code c =
     (if (of_char CHR ''A'' :: nat) \<le> of_char c \<and> (of_char c :: nat) \<le> of_char CHR ''Z''
      then of_char c + 32 else of_char c)"

definition is_exported :: "string \<Rightarrow> bool" where
  "is_exported n =
     (case n of
        c # cs \<Rightarrow> (of_char CHR ''A'' :: nat) \<le> of_char c \<and> (of_char c :: nat) \<le> of_char CHR ''Z''
      | [] \<Rightarrow> False)"

fun index_where :: "('a \<Rightarrow> bool) \<Rightarrow> 'a list \<Rightarrow> nat option" where
  "index_where P [] = None"
| "index_where P (x # xs) = (if P x then Some 0 else map_option Suc (index_where P xs))"

definition find_field :: "string \<Rightarrow> struct_type \<Rightarrow> nat option" where
  "find_field k T =
     (case index_where (\<lambda>(n, tag). is_exported n \<and> n = k) T of
        Some i \<Rightarrow> Some i
      | None \<Rightarrow> index_where (\<lambda>(n, tag). is_exported n \<and> map lower_code n = map lower_code k) T)"

fun store_value :: "json \<Rightarrow> Field \<Rightarrow> field_value \<times> error option" where
  "store_value j f =
     (case (j, Value f) of
        (JNull, x) \<Rightarrow> (x, None)
      | (JString s, String_v old) \<Rightarrow> (String_v s, None)
      | (JInt n, Int_v old) \<Rightarrow>
          (if - (2 ^ 63) \<le> n \<and> n < 2 ^ 63 then (Int_v n, None)
           else (Int_v old, Some (ErrorString ''json: cannot unmarshal number into Go struct field'')))
      | (JBool b, Other_v old) \<Rightarrow> (Other_v (if b then ''true'' else []), None)
      | (j', x) \<Rightarrow> (x, Some (ErrorString ''json: cannot unmarshal value into Go struct field'')))"

definition object_Decode :: "json option \<Rightarrow> Field list \<Rightarrow> Field list \<times> error option" where
  "object_Decode = json_Decode find_field store_value"

text \<open>
  The validator instance knows the constraint \<^verbatim>\<open>validate:"required"\<close>: a field that
  carries it fails when its value is the zero value of its kind.
\<close>

fun is_zero :: "field_value \<Rightarrow> bool" where
  "is_zero (String_v s) = (s = [])"
| "is_zero (Int_v n) = (n = 0)"
| "is_zero (Other_v x) = (x = [])"

definition required_Struct :: "Field list \<Rightarrow> string list option" where
  "required_Struct data =
     (case filter (\<lambda>f. Tag_Get (Tag f) ''validate'' = ''required'' \<and> is_zero (Value f)) data of
        [] \<Rightarrow> None
      | fs \<Rightarrow> Some (map Name fs))"



text \<open>
  An example target at its zero value: a struct with the string field \<^verbatim>\<open>Name\<close> (tagged
  \<^verbatim>\<open>query:"name" validate:"required"\<close>), the \<^verbatim>\<open>int\<close> field \<^verbatim>\<open>Age\<close> (tagged
  \<^verbatim>\<open>query:"age" validate:"required"\<close>) and the \<^verbatim>\<open>bool\<close> field \<^verbatim>\<open>Admin\<close> (tagged
  \<^verbatim>\<open>query:"admin"\<close>); and an example request and context.
\<close>

definition example_target :: "Field list" where
  "example_target =
     [\<lparr>Name = ''Name'', Tag = [(''query'', ''name''), (''validate'', ''required'')], Value = String_v []\<rparr>,
      \<lparr>Name = ''Age'', Tag = [(''query'', ''age''), (''validate'', ''required'')], Value = Int_v 0\<rparr>,
      \<lparr>Name = ''Admin'', Tag = [(''query'', ''admin'')], Value = Other_v []\<rparr>]"

definition example_request ::
  "(string \<times> string list) list \<Rightarrow> string \<Rightarrow> json option \<Rightarrow> json option Request" where
  "example_request query contentType body =
     \<lparr>Method = ''POST'', URL_Query = map_of query,
      Header = [''Content-Type'' \<mapsto> [contentType]], Body = body\<rparr>"

definition example_context ::
  "(string \<times> string list) list \<Rightarrow> string \<Rightarrow> json option \<Rightarrow> json option Context" where
  "example_context query contentType body =
     NewContext [] (example_request query contentType body) None"

section \<open>Theorems\<close>

text \<open>
  C7. \<^verbatim>\<open>NewHttpError(msg, cause, status...)\<close>: with exactly one status in [200,520] the
  error has that status; with no status, or one status outside [200,520] (999 for one),
  it has 400; the message and the cause are stored unchanged.
\<close>

theorem NewHttpError_status:
  "statusCode (NewHttpError m e [s]) = (if 200 \<le> s \<and> s \<le> 520 then s else 400)
   \<and> statusCode (NewHttpError m e []) = 400
   \<and> statusCode (NewHttpError m e [999]) = 400
   \<and> msg (NewHttpError m e ss) = m
   \<and> err (NewHttpError m e ss) = e"
  by (simp add: NewHttpError_def StatusBadRequest_def Let_def)

subsection \<open>The response writer\<close>



lemmas writer_defs = Header_Set_def WriteHeader_def Encode_def ApiErrorResponse_json_def
  StatusInternalServerError_def StatusOK_def

text \<open>
  C1, as amended. For an error that neither is nor wraps a \<^verbatim>\<open>*HttpError\<close>, \<^verbatim>\<open>HandleError\<close>
  sets the content type, writes the status and emits exactly the document
  \<^verbatim>\<open>{"code":0,"message":"Internal error"}\<close>. The status is 500 unless exactly one
  override status is supplied; a single override is the status written.
\<close>

theorem HandleError_unclassified:
  "errors_As e = None \<Longrightarrow>
   HandleError w r e overRideStatusCode =
     w @ [Set_Header ''Content-Type'' ''application/json;charset=utf-8'',
          Write_Header (if length overRideStatusCode = 1 then overRideStatusCode ! 0 else 500),
          Write_JSON (JObject [(''code'', JInt 0), (''message'', JString ''Internal error'')])]"
  by (simp add: HandleError_def writer_defs)

theorem HandleError_unclassified_witness:
  "errors_As (Errorf ''failed to decode JSON body: %s'' [ArgError (ErrorString ''EOF'')]) = None
   \<and> HandleError [] (example_request [] [] None)
        (Errorf ''failed to decode JSON body: %s'' [ArgError (ErrorString ''EOF'')]) [] =
      [Set_Header ''Content-Type'' ''application/json;charset=utf-8'', Write_Header 500,
       Write_JSON (JObject [(''code'', JInt 0), (''message'', JString ''Internal error'')])]
   \<and> HandleError [] (example_request [] [] None)
        (Errorf ''failed to decode JSON body: %s'' [ArgError (ErrorString ''EOF'')]) [503] =
      [Set_Header ''Content-Type'' ''application/json;charset=utf-8'', Write_Header 503,
       Write_JSON (JObject [(''code'', JInt 0), (''message'', JString ''Internal error'')])]"
  using HandleError_unclassified [of "Errorf ''failed to decode JSON body: %s'' [ArgError (ErrorString ''EOF'')]"
      "[]" "example_request [] [] None" "[]"]
    HandleError_unclassified [of "Errorf ''failed to decode JSON body: %s'' [ArgError (ErrorString ''EOF'')]"
      "[]" "example_request [] [] None" "[503]"]
  by simp

text \<open>
  The claim as first stated (status 500 whatever the override) fails: with the single
  override 404 an unclassified error is answered with status 404.
\<close>

theorem HandleError_unclassified_status_counterexample:
  "errors_As (ErrorString ''boom'') = None
   \<and> written_status (HandleError [] (example_request [] [] None) (ErrorString ''boom'') [404]) = [404]
   \<and> written_status (HandleError [] (example_request [] [] None) (ErrorString ''boom'') [404]) \<noteq> [500]"
  by (simp add: HandleError_def writer_defs)

text \<open>
  C5. For an error that is or wraps a \<^verbatim>\<open>*HttpError\<close>, \<^verbatim>\<open>HandleError\<close> writes that error's
  own status, whatever the override, and emits the document with the code \<^verbatim>\<open>0x6400\<close>
  and the error's message. The code is the same for every classified error and is not
  the 0 of the unclassified branch. In both branches the document has the members
  \<^verbatim>\<open>code\<close> and \<^verbatim>\<open>message\<close> and nothing else: the encoding of an \<^verbatim>\<open>ApiErrorResponse\<close>
  does not depend on its cause.
\<close>

theorem HandleError_classified:
  "errors_As e = Some h \<Longrightarrow>
   HandleError w r e overRideStatusCode =
     w @ [Set_Header ''Content-Type'' ''application/json;charset=utf-8'',
          Write_Header (statusCode h),
          Write_JSON (JObject [(''code'', JInt 0x6400), (''message'', JString (msg h))])]
   \<and> (0x6400 :: int) \<noteq> 0
   \<and> written_body (HandleError [] r e' overRideStatusCode) =
       [JObject [(''code'', JInt (case errors_As e' of Some h' \<Rightarrow> 0x6400 | None \<Rightarrow> 0)),
                 (''message'', JString (case errors_As e' of Some h' \<Rightarrow> msg h' | None \<Rightarrow> ''Internal error''))]]
   \<and> ApiErrorResponse_json \<lparr>Code = code, Message = m, Cause = cause\<rparr> =
       JObject [(''code'', JInt code), (''message'', JString m)]"
  by (simp add: HandleError_def writer_defs HttpError_Status_def HttpError_Error_def
      HttpError_Cause_def split: option.split)

theorem HandleError_classified_witness:
  "errors_As (WrapError ''lookup'' (HttpErrorPtr (NewHttpError ''not found'' (Some (ErrorString ''no row'')) [404])))
     = Some (HttpError (Some (ErrorString ''no row'')) ''not found'' 404)
   \<and> HandleError [] (example_request [] [] None)
        (WrapError ''lookup'' (HttpErrorPtr (NewHttpError ''not found'' (Some (ErrorString ''no row'')) [404]))) [500] =
      [Set_Header ''Content-Type'' ''application/json;charset=utf-8'', Write_Header 404,
       Write_JSON (JObject [(''code'', JInt 25600), (''message'', JString ''not found'')])]"
  using HandleError_classified [of
      "WrapError ''lookup'' (HttpErrorPtr (NewHttpError ''not found'' (Some (ErrorString ''no row'')) [404]))"
      "HttpError (Some (ErrorString ''no row'')) ''not found'' 404"
      "[]" "example_request [] [] None" "[500]"]
  by (simp add: NewHttpError_def StatusBadRequest_def)





text \<open>
  C10. Two or more variadic status arguments are all ignored: \<^verbatim>\<open>NewHttpError\<close> then
  gives the status 400 whatever their values, and \<^verbatim>\<open>HandleError\<close> behaves as it does with
  no override, so that an unclassified error is answered with its default 500.
\<close>

theorem variadic_two_or_more_ignored:
  "statusCode (NewHttpError m c (s1 # s2 # ss)) = 400
   \<and> HandleError w r e (s1 # s2 # ss) = HandleError w r e []
   \<and> (errors_As e = None \<longrightarrow> written_status (HandleError [] r e (s1 # s2 # ss)) = [500])"
  by (simp add: NewHttpError_def StatusBadRequest_def HandleError_def writer_defs)

theorem variadic_two_or_more_ignored_witness:
  "statusCode (NewHttpError ''x'' None [404, 403]) = 400
   \<and> HandleError [] (example_request [] [] None) (ErrorString ''boom'') [404, 403] =
       HandleError [] (example_request [] [] None) (ErrorString ''boom'') []
   \<and> errors_As (ErrorString ''boom'') = None
   \<and> written_status (HandleError [] (example_request [] [] None) (ErrorString ''boom'') [404, 403]) = [500]"
  using variadic_two_or_more_ignored [of "''x''" None 404 403 "[]" "[]" "example_request [] [] None" "ErrorString ''boom''"]
  by (simp add: HandleError_def writer_defs)

subsection \<open>Query coercion\<close>

lemma digit_val_range: "is_digit c \<Longrightarrow> 0 \<le> digit_val c \<and> digit_val c \<le> 9"
  by (simp add: is_digit_def digit_val_def)

lemma decimal_mono:
  "\<forall>c\<in>set ds. is_digit c \<Longrightarrow> 0 \<le> n \<Longrightarrow> n \<le> foldl (\<lambda>a c. a * 10 + digit_val c) n ds"
proof (induction ds arbitrary: n)
  case Nil
  show ?case by simp
next
  case (Cons c cs)
  from Cons.prems have d: "0 \<le> digit_val c" by (simp add: digit_val_range)
  with Cons.prems have "n * 10 + digit_val c \<le> foldl (\<lambda>a c. a * 10 + digit_val c) (n * 10 + digit_val c) cs"
    by (intro Cons.IH) simp_all
  with d Cons.prems show ?case by simp
qed

lemma ParseUint_decimal:
  "\<forall>c\<in>set ds. is_digit c \<Longrightarrow> 0 \<le> n \<Longrightarrow>
   foldl (\<lambda>a c. a * 10 + digit_val c) n ds < 2 ^ 64 \<Longrightarrow>
   ParseUint n ds = Inr (foldl (\<lambda>a c. a * 10 + digit_val c) n ds)"
proof (induction ds arbitrary: n)
  case Nil
  show ?case by simp
next
  case (Cons c cs)
  from Cons.prems have d: "0 \<le> digit_val c" by (simp add: digit_val_range)
  with Cons.prems have m: "n * 10 + digit_val c \<le> foldl (\<lambda>a c. a * 10 + digit_val c) (n * 10 + digit_val c) cs"
    by (intro decimal_mono) simp_all
  with Cons.prems have b: "n * 10 + digit_val c < 2 ^ 64" by simp
  from Cons.prems d have "ParseUint (n * 10 + digit_val c) cs =
      Inr (foldl (\<lambda>a c. a * 10 + digit_val c) (n * 10 + digit_val c) cs)"
    by (intro Cons.IH) simp_all
  with Cons.prems b show ?case by simp
qed

text \<open>
  \<^verbatim>\<open>Atoi\<close> is a base-10 parse: on a non-empty string of decimal digits whose value fits
  an \<^verbatim>\<open>int\<close> it returns that value, and its negation after a minus sign.
\<close>

lemma Atoi_decimal:
  assumes "ds \<noteq> []" and "\<forall>c\<in>set ds. is_digit c"
    and "foldl (\<lambda>a c. a * 10 + digit_val c) 0 ds < 2 ^ 63"
  shows "Atoi ds = Inr (foldl (\<lambda>a c. a * 10 + digit_val c) 0 ds)"
    and "Atoi (CHR ''-'' # ds) = Inr (- foldl (\<lambda>a c. a * 10 + digit_val c) 0 ds)"
proof -
  let ?v = "foldl (\<lambda>a c. a * 10 + digit_val c) 0 ds"
  from assms have p: "ParseUint 0 ds = Inr ?v"
    by (intro ParseUint_decimal) simp_all
  from assms obtain c cs where ds: "ds = c # cs" by (cases ds) simp_all
  with assms have "is_digit c" by simp
  then have "c \<noteq> CHR ''+'' \<and> c \<noteq> CHR ''-''" by (auto simp add: is_digit_def)
  with p ds assms(3) show "Atoi ds = Inr ?v"
    by (simp add: Atoi_def)
  from p assms(1,3) show "Atoi (CHR ''-'' # ds) = Inr (- ?v)"
    by (simp add: Atoi_def)
qed

text \<open>
  One turn of the loop, in the specification's terms: a field whose present value does
  not parse ends the loop with the target as it stands; any other field is coerced and
  the loop goes on.
\<close>

lemma BindQueryParams_Cons:
  "BindQueryParams (f # rest) params =
     (case parse_failure params f of
        Some ne \<Rightarrow>
          (f # rest,
           Some (Errorf ''failed to convert parameter %s to int: %s''
                   [ArgString (Tag_Get (Tag f) ''query''), ArgError ne]))
      | None \<Rightarrow>
          (case BindQueryParams rest params of (rest', e) \<Rightarrow> (coerced params f # rest', e)))"
  by (simp add: parse_failure_def coerced_def query_value_def Let_def
      split: option.split list.split field_value.split sum.split prod.split)

lemma BindQueryParams_no_failure:
  "\<forall>f\<in>set data. parse_failure params f = None \<Longrightarrow>
   BindQueryParams data params = (map (coerced params) data, None)"
proof (induction data)
  case Nil
  show ?case by simp
next
  case (Cons f rest)
  then show ?case by (simp add: BindQueryParams_Cons del: BindQueryParams.simps)
qed

lemma BindQueryParams_first_failure:
  "\<forall>g\<in>set pre. parse_failure params g = None \<Longrightarrow> parse_failure params f = Some ne \<Longrightarrow>
   BindQueryParams (pre @ f # post) params =
     (map (coerced params) pre @ f # post,
      Some (Errorf ''failed to convert parameter %s to int: %s''
              [ArgString (Tag_Get (Tag f) ''query''), ArgError ne]))"
proof (induction pre)
  case Nil
  then show ?case by (simp add: BindQueryParams_Cons del: BindQueryParams.simps)
next
  case (Cons g pre)
  then show ?case by (simp add: BindQueryParams_Cons del: BindQueryParams.simps)
qed

lemma BindQueryParams_shape:
  "BindQueryParams data params = (data', e) \<Longrightarrow>
   length data' = length data \<and> map Name data' = map Name data \<and> map Tag data' = map Tag data"
proof (induction data arbitrary: data' e)
  case Nil
  then show ?case by simp
next
  case (Cons f rest)
  obtain rest' e' where r: "BindQueryParams rest params = (rest', e')"
    by (cases "BindQueryParams rest params")
  have c: "Name (coerced params f) = Name f \<and> Tag (coerced params f) = Tag f"
    by (simp add: coerced_def split: option.split field_value.split sum.split)
  from Cons.prems r Cons.IH [OF r] c show ?case
    by (auto simp add: BindQueryParams_Cons simp del: BindQueryParams.simps split: option.splits)
qed

lemmas example_defs = example_context_def example_request_def example_target_def NewContext_def
  Header_Get_def Tag_Get_def Atoi_def is_digit_def digit_val_def Let_def

lemmas bind_defs = Bind_def BindWithoutValidation_def BindJSONBody_def NewHttpError_def
  StatusBadRequest_def required_Struct_def

lemmas decoder_defs = object_Decode_def decode_member_def type_of_def find_field_def
  is_exported_def lower_code_def

text \<open>
  C3. For every target and query multimap: when no field has a present value that fails
  the integer parse, \<^verbatim>\<open>BindQueryParams\<close> returns no error and every field is coerced: a
  field whose annotated parameter is absent (or has no value, or that has no annotation)
  is left as it was, so a zero value stays the zero value; a string field gets the first
  value as it is; an \<^verbatim>\<open>int\<close> field gets the first value parsed by \<^verbatim>\<open>Atoi\<close>. At the
  first field whose present value fails the parse, the call returns the error that
  carries the parameter name and the parse failure; the fields before it are coerced,
  that field and all the fields after it are untouched.
\<close>

theorem BindQueryParams_coercion:
  "((\<forall>f\<in>set data. parse_failure params f = None) \<longrightarrow>
      BindQueryParams data params = (map (coerced params) data, None))
   \<and> ((\<forall>g\<in>set pre. parse_failure params g = None) \<and> parse_failure params f = Some ne \<longrightarrow>
      BindQueryParams (pre @ f # post) params =
        (map (coerced params) pre @ f # post,
         Some (Errorf ''failed to convert parameter %s to int: %s''
                 [ArgString (Tag_Get (Tag f) ''query''), ArgError ne])))
   \<and> (query_value params f = None \<longrightarrow> coerced params f = f)
   \<and> (query_value params f = Some v \<and> Value f = String_v s \<longrightarrow>
        coerced params f = f\<lparr>Value := String_v v\<rparr> \<and> parse_failure params f = None)
   \<and> (query_value params f = Some v \<and> Value f = Int_v k \<and> Atoi v = Inr n \<longrightarrow>
        coerced params f = f\<lparr>Value := Int_v n\<rparr> \<and> parse_failure params f = None)
   \<and> (query_value params f = Some v \<and> Value f = Int_v k \<and> Atoi v = Inl ne \<longrightarrow>
        parse_failure params f = Some ne)"
  using BindQueryParams_no_failure [of data params] BindQueryParams_first_failure [of pre params f ne post]
  by (simp add: coerced_def parse_failure_def)

theorem BindQueryParams_coercion_witness:
  "BindQueryParams example_target (map_of [(''name'', [''Bob'', ''Al'']), (''age'', [''42'']), (''admin'', [''true''])]) =
     ([\<lparr>Name = ''Name'', Tag = [(''query'', ''name''), (''validate'', ''required'')], Value = String_v ''Bob''\<rparr>,
       \<lparr>Name = ''Age'', Tag = [(''query'', ''age''), (''validate'', ''required'')], Value = Int_v 42\<rparr>,
       \<lparr>Name = ''Admin'', Tag = [(''query'', ''admin'')], Value = Other_v []\<rparr>], None)
   \<and> BindQueryParams example_target (map_of [(''name'', [''Bob'']), (''age'', [''4x2'']), (''admin'', [''true''])]) =
     ([\<lparr>Name = ''Name'', Tag = [(''query'', ''name''), (''validate'', ''required'')], Value = String_v ''Bob''\<rparr>,
       \<lparr>Name = ''Age'', Tag = [(''query'', ''age''), (''validate'', ''required'')], Value = Int_v 0\<rparr>,
       \<lparr>Name = ''Admin'', Tag = [(''query'', ''admin'')], Value = Other_v []\<rparr>],
      Some (Errorf ''failed to convert parameter %s to int: %s''
              [ArgString ''age'', ArgError (NumError ''Atoi'' ''4x2'' ErrSyntax)]))"
  using BindQueryParams_coercion [of example_target
      "map_of [(''name'', [''Bob'', ''Al'']), (''age'', [''42'']), (''admin'', [''true''])]"
      "[]" "hd example_target" "NumError ''Atoi'' ''4x2'' ErrSyntax" "[]" "''Bob''" "[]" 0 42]
    BindQueryParams_coercion [of "[]"
      "map_of [(''name'', [''Bob'']), (''age'', [''4x2'']), (''admin'', [''true''])]"
      "[hd example_target]" "example_target ! 1" "NumError ''Atoi'' ''4x2'' ErrSyntax"
      "[example_target ! 2]" "''4x2''" "[]" 0 0]
  by (simp add: example_defs parse_failure_def coerced_def query_value_def)

subsection \<open>Bind and BindWithoutValidation\<close>

lemma BindWithoutValidation_coercion_failed:
  "BindQueryParams data (URL_Query (request c)) = (d1, Some e) \<Longrightarrow>
   BindWithoutValidation decode c data = (d1, Some e)"
  by (simp add: BindWithoutValidation_def)

lemma BindWithoutValidation_json:
  "BindQueryParams data (URL_Query (request c)) = (d1, None) \<Longrightarrow>
   Header_Get (Header (request c)) ''Content-Type'' = ''application/json'' \<Longrightarrow>
   BindWithoutValidation decode c data = BindJSONBody decode d1 (Body (request c))"
  by (simp add: BindWithoutValidation_def BindJSONBody_def split: prod.split option.split)

lemma BindWithoutValidation_other:
  "BindQueryParams data (URL_Query (request c)) = (d1, None) \<Longrightarrow>
   Header_Get (Header (request c)) ''Content-Type'' \<noteq> ''application/json'' \<Longrightarrow>
   BindWithoutValidation decode c data = (d1, None)"
  by (simp add: BindWithoutValidation_def)

lemma Bind_failed:
  "BindWithoutValidation decode c data = (d, Some e) \<Longrightarrow>
   Bind validate decode c data = (d, Some (HttpError (Some e) ''failed to read inputs'' 400))"
  by (simp add: Bind_def NewHttpError_def StatusBadRequest_def)

lemma Bind_succeeded:
  "Bind validate decode c data = (d, None) \<Longrightarrow> BindWithoutValidation decode c data = (d, None)"
  by (auto simp add: Bind_def split: prod.splits option.splits)

text \<open>
  C2. If query coercion fails with an error, \<^verbatim>\<open>BindWithoutValidation\<close> returns that
  error as it is, and \<^verbatim>\<open>Bind\<close> returns an \<^verbatim>\<open>HttpError\<close> with status 400, the message
  \<^verbatim>\<open>failed to read inputs\<close> and that error as its cause. If coercion succeeds, the
  content type is \<^verbatim>\<open>application/json\<close> and the decoder fails, the same holds of the error
  \<^verbatim>\<open>BindJSONBody\<close> returns. In both cases the result is the same for every validator:
  validation is not run.
\<close>

theorem Bind_read_failure:
  "(BindQueryParams data (URL_Query (request c)) = (d1, Some e) \<longrightarrow>
      BindWithoutValidation decode c data = (d1, Some e)
      \<and> Bind validate decode c data = (d1, Some (HttpError (Some e) ''failed to read inputs'' 400)))
   \<and> (BindQueryParams data (URL_Query (request c)) = (d1, None)
       \<and> Header_Get (Header (request c)) ''Content-Type'' = ''application/json''
       \<and> decode (Body (request c)) d1 = (d2, Some e0) \<longrightarrow>
      BindJSONBody decode d1 (Body (request c)) =
        (d2, Some (Errorf ''failed to decode JSON body: %s'' [ArgError e0]))
      \<and> BindWithoutValidation decode c data =
        (d2, Some (Errorf ''failed to decode JSON body: %s'' [ArgError e0]))
      \<and> Bind validate decode c data =
        (d2, Some (HttpError (Some (Errorf ''failed to decode JSON body: %s'' [ArgError e0]))
                     ''failed to read inputs'' 400)))"
proof (intro conjI impI)
  assume q: "BindQueryParams data (URL_Query (request c)) = (d1, Some e)"
  then show "BindWithoutValidation decode c data = (d1, Some e)"
    by (rule BindWithoutValidation_coercion_failed)
  then show "Bind validate decode c data = (d1, Some (HttpError (Some e) ''failed to read inputs'' 400))"
    by (rule Bind_failed)
next
  assume a: "BindQueryParams data (URL_Query (request c)) = (d1, None)
       \<and> Header_Get (Header (request c)) ''Content-Type'' = ''application/json''
       \<and> decode (Body (request c)) d1 = (d2, Some e0)"
  then show j: "BindJSONBody decode d1 (Body (request c)) =
        (d2, Some (Errorf ''failed to decode JSON body: %s'' [ArgError e0]))"
    by (simp add: BindJSONBody_def)
  with a show b: "BindWithoutValidation decode c data =
        (d2, Some (Errorf ''failed to decode JSON body: %s'' [ArgError e0]))"
    by (simp add: BindWithoutValidation_json)
  then show "Bind validate decode c data =
        (d2, Some (HttpError (Some (Errorf ''failed to decode JSON body: %s'' [ArgError e0]))
                     ''failed to read inputs'' 400))"
    by (rule Bind_failed)
qed

theorem Bind_read_failure_witness:
  "BindWithoutValidation object_Decode
      (example_context [(''age'', [''abc''])] ''application/json'' (Some (JObject [(''Name'', JString ''Bob'')])))
      example_target =
     (example_target,
      Some (Errorf ''failed to convert parameter %s to int: %s''
              [ArgString ''age'', ArgError (NumError ''Atoi'' ''abc'' ErrSyntax)]))
   \<and> Bind required_Struct object_Decode
      (example_context [(''age'', [''abc''])] ''application/json'' (Some (JObject [(''Name'', JString ''Bob'')])))
      example_target =
     (example_target,
      Some (HttpError
              (Some (Errorf ''failed to convert parameter %s to int: %s''
                       [ArgString ''age'', ArgError (NumError ''Atoi'' ''abc'' ErrSyntax)]))
              ''failed to read inputs'' 400))
   \<and> BindWithoutValidation object_Decode (example_context [] ''application/json'' None) example_target =
     (example_target, Some (Errorf ''failed to decode JSON body: %s'' [ArgError (ErrorString ''EOF'')]))
   \<and> Bind required_Struct object_Decode (example_context [] ''application/json'' None) example_target =
     (example_target,
      Some (HttpError (Some (Errorf ''failed to decode JSON body: %s'' [ArgError (ErrorString ''EOF'')]))
              ''failed to read inputs'' 400))"
  using Bind_read_failure [of example_target
      "example_context [(''age'', [''abc''])] ''application/json'' (Some (JObject [(''Name'', JString ''Bob'')]))"
      example_target
      "Errorf ''failed to convert parameter %s to int: %s''
         [ArgString ''age'', ArgError (NumError ''Atoi'' ''abc'' ErrSyntax)]"
      object_Decode required_Struct example_target "ErrorString ''EOF''"]
    Bind_read_failure [of example_target "example_context [] ''application/json'' None"
      example_target "ErrorString ''EOF''" object_Decode required_Struct example_target "ErrorString ''EOF''"]
  by (simp add: example_defs decoder_defs)

text \<open>
  C4, as amended. When binding succeeds and the validator reports fields, \<^verbatim>\<open>Bind\<close>
  returns an \<^verbatim>\<open>HttpError\<close> with status 400 and no cause; its message is
  \<^verbatim>\<open>validation error(s): \<close> followed by the diagnostics \<^verbatim>\<open>validation failed for <field>\<close>,
  one for each reported field, joined with a comma and a space.
\<close>

theorem Bind_validation_failure:
  "BindWithoutValidation decode c data = (d, None) \<Longrightarrow> validate d = Some names \<Longrightarrow>
   Bind validate decode c data =
     (d, Some (HttpError None
                 (''validation error(s): '' @
                    strings_Join (map (\<lambda>f. ''validation failed for '' @ f) names) '', '')
                 400))"
  by (simp add: Bind_def NewHttpError_def StatusBadRequest_def del: append.simps)

theorem Bind_validation_failure_witness:
  "BindWithoutValidation object_Decode (example_context [(''age'', [''0''])] ''text/plain'' None) example_target =
     (example_target, None)
   \<and> required_Struct example_target = Some [''Name'', ''Age'']
   \<and> Bind required_Struct object_Decode (example_context [(''age'', [''0''])] ''text/plain'' None) example_target =
     (example_target,
      Some (HttpError None ''validation error(s): validation failed for Name, validation failed for Age'' 400))"
  using Bind_validation_failure [of object_Decode
      "example_context [(''age'', [''0''])] ''text/plain'' None" example_target example_target
      required_Struct "[''Name'', ''Age'']"]
  by (simp add: example_defs decoder_defs BindWithoutValidation_def required_Struct_def)

text \<open>
  The claim as first stated (the message is the joined diagnostics) fails: the message
  starts with \<^verbatim>\<open>validation error(s): \<close>.
\<close>

theorem Bind_validation_message_counterexample:
  "msg (the (snd (Bind required_Struct object_Decode (example_context [] ''text/plain'' None) example_target))) =
     ''validation error(s): validation failed for Name, validation failed for Age''
   \<and> msg (the (snd (Bind required_Struct object_Decode (example_context [] ''text/plain'' None) example_target))) \<noteq>
     strings_Join [''validation failed for Name'', ''validation failed for Age''] '', ''"
  by (simp add: example_defs bind_defs decoder_defs)

text \<open>
  C6, as amended. When query coercion succeeds, the JSON body decoder runs if and only
  if the \<^verbatim>\<open>Content-Type\<close> header is exactly \<^verbatim>\<open>application/json\<close>: with that value the result
  of \<^verbatim>\<open>BindWithoutValidation\<close> is the result of \<^verbatim>\<open>BindJSONBody\<close> on the coerced target, with
  any other value it is the coerced target and no error, whatever the decoder. When query
  coercion fails, the decoder does not run, whatever the content type.
\<close>

theorem body_decoding_dispatch:
  "(BindQueryParams data (URL_Query (request c)) = (d1, None)
      \<and> Header_Get (Header (request c)) ''Content-Type'' = ''application/json'' \<longrightarrow>
        BindWithoutValidation decode c data = BindJSONBody decode d1 (Body (request c)))
   \<and> (BindQueryParams data (URL_Query (request c)) = (d1, None)
      \<and> Header_Get (Header (request c)) ''Content-Type'' \<noteq> ''application/json'' \<longrightarrow>
        BindWithoutValidation decode c data = (d1, None))
   \<and> (BindQueryParams data (URL_Query (request c)) = (d1, Some e) \<longrightarrow>
        BindWithoutValidation decode c data = (d1, Some e))"
  by (simp add: BindWithoutValidation_json BindWithoutValidation_other
      BindWithoutValidation_coercion_failed)

theorem body_decoding_dispatch_witness:
  "BindWithoutValidation object_Decode
      (example_context [(''age'', [''42''])] ''application/json'' (Some (JObject [(''Name'', JString ''Bob'')])))
      example_target =
     ([\<lparr>Name = ''Name'', Tag = [(''query'', ''name''), (''validate'', ''required'')], Value = String_v ''Bob''\<rparr>,
       \<lparr>Name = ''Age'', Tag = [(''query'', ''age''), (''validate'', ''required'')], Value = Int_v 42\<rparr>,
       \<lparr>Name = ''Admin'', Tag = [(''query'', ''admin'')], Value = Other_v []\<rparr>], None)
   \<and> BindWithoutValidation object_Decode
      (example_context [(''age'', [''42''])] ''application/json; charset=utf-8''
         (Some (JObject [(''Name'', JString ''Bob'')])))
      example_target =
     ([\<lparr>Name = ''Name'', Tag = [(''query'', ''name''), (''validate'', ''required'')], Value = String_v []\<rparr>,
       \<lparr>Name = ''Age'', Tag = [(''query'', ''age''), (''validate'', ''required'')], Value = Int_v 42\<rparr>,
       \<lparr>Name = ''Admin'', Tag = [(''query'', ''admin'')], Value = Other_v []\<rparr>], None)
   \<and> BindWithoutValidation object_Decode
      (example_context [(''age'', [''abc''])] ''application/json'' (Some (JObject [(''Name'', JString ''Bob'')])))
      example_target =
     (example_target,
      Some (Errorf ''failed to convert parameter %s to int: %s''
              [ArgString ''age'', ArgError (NumError ''Atoi'' ''abc'' ErrSyntax)]))"
  using body_decoding_dispatch [of example_target
      "example_context [(''age'', [''42''])] ''application/json'' (Some (JObject [(''Name'', JString ''Bob'')]))"
      "fst (BindQueryParams example_target (map_of [(''age'', [''42''])]))" object_Decode
      "ErrorString ''EOF''"]
    body_decoding_dispatch [of example_target
      "example_context [(''age'', [''42''])] ''application/json; charset=utf-8''
         (Some (JObject [(''Name'', JString ''Bob'')]))"
      "fst (BindQueryParams example_target (map_of [(''age'', [''42''])]))" object_Decode
      "ErrorString ''EOF''"]
    body_decoding_dispatch [of example_target
      "example_context [(''age'', [''abc''])] ''application/json'' (Some (JObject [(''Name'', JString ''Bob'')]))"
      example_target object_Decode
      "Errorf ''failed to convert parameter %s to int: %s''
         [ArgString ''age'', ArgError (NumError ''Atoi'' ''abc'' ErrSyntax)]"]
  by (simp add: example_defs decoder_defs BindJSONBody_def)

text \<open>
  The claim as first stated (for every request the decoder runs when the content type
  is \<^verbatim>\<open>application/json\<close>) fails: with \<^verbatim>\<open>age=abc\<close> in the query the call returns the
  conversion error and the body, which would have set \<^verbatim>\<open>Name\<close>, is not decoded.
\<close>

theorem body_decoding_dispatch_counterexample:
  "Header_Get (Header (request
      (example_context [(''age'', [''abc''])] ''application/json'' (Some (JObject [(''Name'', JString ''Bob'')])))))
      ''Content-Type'' = ''application/json''
   \<and> BindWithoutValidation object_Decode
      (example_context [(''age'', [''abc''])] ''application/json'' (Some (JObject [(''Name'', JString ''Bob'')])))
      example_target =
     (example_target,
      Some (Errorf ''failed to convert parameter %s to int: %s''
              [ArgString ''age'', ArgError (NumError ''Atoi'' ''abc'' ErrSyntax)]))
   \<and> BindJSONBody object_Decode example_target (Some (JObject [(''Name'', JString ''Bob'')])) =
     ([\<lparr>Name = ''Name'', Tag = [(''query'', ''name''), (''validate'', ''required'')], Value = String_v ''Bob''\<rparr>,
       \<lparr>Name = ''Age'', Tag = [(''query'', ''age''), (''validate'', ''required'')], Value = Int_v 0\<rparr>,
       \<lparr>Name = ''Admin'', Tag = [(''query'', ''admin'')], Value = Other_v []\<rparr>], None)
   \<and> BindWithoutValidation object_Decode
      (example_context [(''age'', [''abc''])] ''application/json'' (Some (JObject [(''Name'', JString ''Bob'')])))
      example_target \<noteq>
     BindJSONBody object_Decode example_target (Some (JObject [(''Name'', JString ''Bob'')]))"
  by (simp add: example_defs bind_defs decoder_defs)

subsection \<open>The decoder changes only the fields its body mentions\<close>

lemma type_of_zip: "type_of d = zip (map Name d) (map Tag d)"
  by (induction d) (simp_all add: type_of_def)

lemma type_of_update: "i < length d \<Longrightarrow> type_of (d[i := (d ! i)\<lparr>Value := x\<rparr>]) = type_of d"
  by (simp add: type_of_def map_update list_update_same_conv)

lemma decode_member_frame:
  "decode_member resolve store k v d = (d', e) \<Longrightarrow>
   length d' = length d \<and> type_of d' = type_of d
   \<and> (\<forall>i<length d. resolve k (type_of d) \<noteq> Some i \<longrightarrow> d' ! i = d ! i)"
  by (auto simp add: decode_member_def type_of_update split: option.splits if_splits prod.splits)

lemma decode_object_frame:
  "decode_object resolve store kvs d = (d', e) \<Longrightarrow>
   length d' = length d \<and> type_of d' = type_of d
   \<and> (\<forall>i<length d. i \<notin> set (List.map_filter (\<lambda>(k, v). resolve k (type_of d)) kvs) \<longrightarrow> d' ! i = d ! i)"
proof (induction kvs arbitrary: d d' e)
  case Nil
  then show ?case by simp
next
  case (Cons kv kvs)
  obtain k v where kv: "kv = (k, v)" by (cases kv)
  obtain d1 e1 where m: "decode_member resolve store k v d = (d1, e1)"
    by (cases "decode_member resolve store k v d")
  obtain d2 e2 where o: "decode_object resolve store kvs d1 = (d2, e2)"
    by (cases "decode_object resolve store kvs d1")
  from Cons.prems kv m o have d': "d' = d2" by simp
  note M = decode_member_frame [OF m]
  note O = Cons.IH [OF o]
  have len: "length d' = length d" using M O d' by simp
  have ty: "type_of d' = type_of d" using M O d' by simp
  have fr: "\<forall>i<length d. i \<notin> set (List.map_filter (\<lambda>(k, v). resolve k (type_of d)) (kv # kvs))
              \<longrightarrow> d' ! i = d ! i"
  proof (intro allI impI)
    fix i assume i: "i < length d"
      and n: "i \<notin> set (List.map_filter (\<lambda>(k, v). resolve k (type_of d)) (kv # kvs))"
    from n kv have nk: "resolve k (type_of d) \<noteq> Some i"
      by (auto simp add: map_filter_simps split: option.splits)
    from n kv have nks: "i \<notin> set (List.map_filter (\<lambda>(k, v). resolve k (type_of d)) kvs)"
      by (auto simp add: map_filter_simps split: option.splits)
    from M i nk have a: "d1 ! i = d ! i" by simp
    from O i M nks have "d2 ! i = d1 ! i" by simp
    with a d' show "d' ! i = d ! i" by simp
  qed
  from len ty fr show ?case by simp
qed

lemma json_Decode_frame:
  "json_Decode resolve store body d = (d', e) \<Longrightarrow>
   length d' = length d \<and> (\<forall>i<length d. i \<notin> mentioned resolve body (type_of d) \<longrightarrow> d' ! i = d ! i)"
proof (induction resolve store body d rule: json_Decode.induct)
  case (2 resolve store kvs data)
  then show ?case using decode_object_frame [of resolve store kvs data d' e] by simp
qed auto


text \<open>
  C9. Query coercion comes before body decoding: after a successful bind the target is
  the decoder's result on the coerced target (or the coerced target itself when the
  body is not decoded). The decoder stores a member's value in the field the member's
  key names and nowhere else, so every field that no key of the body names has the value
  query coercion left in it: its coerced value, or the value it had before.
\<close>

theorem body_decoding_frame:
  assumes bound: "BindWithoutValidation (json_Decode resolve store) c data = (data', None)
                  \<or> Bind validate (json_Decode resolve store) c data = (data', None)"
  shows "\<exists>d1. BindQueryParams data (URL_Query (request c)) = (d1, None)
           \<and> data' = (if Header_Get (Header (request c)) ''Content-Type'' = ''application/json''
                      then fst (json_Decode resolve store (Body (request c)) d1) else d1)
           \<and> length data' = length data
           \<and> (\<forall>i<length data. i \<notin> mentioned resolve (Body (request c)) (type_of data) \<longrightarrow>
                  data' ! i = d1 ! i)"
proof -
  let ?decode = "json_Decode resolve store"
  from bound have ok: "BindWithoutValidation ?decode c data = (data', None)"
    using Bind_succeeded by blast
  obtain d1 e1 where q: "BindQueryParams data (URL_Query (request c)) = (d1, e1)"
    by (cases "BindQueryParams data (URL_Query (request c))")
  have e1: "e1 = None"
  proof (cases e1)
    case None then show ?thesis .
  next
    case (Some e)
    with q ok show ?thesis by (simp add: BindWithoutValidation_coercion_failed)
  qed
  from BindQueryParams_shape [OF q]
  have len: "length d1 = length data" and ty: "type_of d1 = type_of data"
    by (simp_all add: type_of_zip)
  show ?thesis
  proof (cases "Header_Get (Header (request c)) ''Content-Type'' = ''application/json''")
    case True
    with q e1 have b: "BindWithoutValidation ?decode c data = BindJSONBody ?decode d1 (Body (request c))"
      by (simp add: BindWithoutValidation_json)
    obtain d2 e2 where d: "?decode (Body (request c)) d1 = (d2, e2)"
      by (cases "?decode (Body (request c)) d1")
    from b ok d have "e2 = None \<and> d2 = data'"
      by (cases e2) (simp_all add: BindJSONBody_def)
    with d have d': "?decode (Body (request c)) d1 = (data', None)" by simp
    from json_Decode_frame [OF d'] len ty
    have "length data' = length data
          \<and> (\<forall>i<length data. i \<notin> mentioned resolve (Body (request c)) (type_of data) \<longrightarrow>
                 data' ! i = d1 ! i)"
      by simp
    with q e1 True d' show ?thesis by simp
  next
    case False
    with q e1 have "BindWithoutValidation ?decode c data = (d1, None)"
      by (simp add: BindWithoutValidation_other)
    with ok have "data' = d1" by simp
    with q e1 False len show ?thesis by simp
  qed
qed

theorem body_decoding_frame_witness:
  "BindWithoutValidation object_Decode
      (example_context [(''age'', [''42''])] ''application/json'' (Some (JObject [(''name'', JString ''Bob'')])))
      example_target =
     ([\<lparr>Name = ''Name'', Tag = [(''query'', ''name''), (''validate'', ''required'')], Value = String_v ''Bob''\<rparr>,
       \<lparr>Name = ''Age'', Tag = [(''query'', ''age''), (''validate'', ''required'')], Value = Int_v 42\<rparr>,
       \<lparr>Name = ''Admin'', Tag = [(''query'', ''admin'')], Value = Other_v []\<rparr>], None)
   \<and> mentioned find_field (Some (JObject [(''name'', JString ''Bob'')])) (type_of example_target) = {0}
   \<and> (\<exists>d1. BindQueryParams example_target (map_of [(''age'', [''42''])]) = (d1, None)
          \<and> Value (d1 ! 1) = Int_v 42
          \<and> [\<lparr>Name = ''Name'', Tag = [(''query'', ''name''), (''validate'', ''required'')], Value = String_v ''Bob''\<rparr>,
              \<lparr>Name = ''Age'', Tag = [(''query'', ''age''), (''validate'', ''required'')], Value = Int_v 42\<rparr>,
              \<lparr>Name = ''Admin'', Tag = [(''query'', ''admin'')], Value = Other_v []\<rparr>] ! 1 = d1 ! 1)"
proof -
  let ?b = "Some (JObject [(''name'', JString ''Bob'')])"
  let ?c = "example_context [(''age'', [''42''])] ''application/json'' ?b"
  let ?r = "[\<lparr>Name = ''Name'', Tag = [(''query'', ''name''), (''validate'', ''required'')], Value = String_v ''Bob''\<rparr>,
             \<lparr>Name = ''Age'', Tag = [(''query'', ''age''), (''validate'', ''required'')], Value = Int_v 42\<rparr>,
             \<lparr>Name = ''Admin'', Tag = [(''query'', ''admin'')], Value = Other_v []\<rparr>]"
  have ok: "BindWithoutValidation object_Decode ?c example_target = (?r, None)"
    by (simp add: example_defs bind_defs decoder_defs)
  have m: "mentioned find_field ?b (type_of example_target) = {0}"
    by (simp add: example_defs decoder_defs map_filter_simps)
  from ok have ok': "BindWithoutValidation (json_Decode find_field store_value) ?c example_target = (?r, None)"
    by (simp only: object_Decode_def)
  from body_decoding_frame [OF disjI1 [OF ok']]
  obtain d1 where d1: "BindQueryParams example_target (URL_Query (request ?c)) = (d1, None)"
    and fr: "\<forall>i<length example_target.
               i \<notin> mentioned find_field (Body (request ?c)) (type_of example_target) \<longrightarrow> ?r ! i = d1 ! i"
    by blast
  have body: "Body (request ?c) = ?b"
    by (simp add: example_context_def example_request_def NewContext_def)
  from fr have "1 < length example_target \<longrightarrow>
      1 \<notin> mentioned find_field (Body (request ?c)) (type_of example_target) \<longrightarrow> ?r ! 1 = d1 ! 1"
    by blast
  with m body have eq: "?r ! 1 = d1 ! 1" by (simp add: example_target_def)
  from arg_cong [OF eq, of Value] have v: "Value (d1 ! 1) = Int_v 42" by simp
  from d1 have q: "BindQueryParams example_target (map_of [(''age'', [''42''])]) = (d1, None)"
    by (simp add: example_context_def example_request_def NewContext_def)
  from ok m q v eq show ?thesis by blast
qed

end
